theory Spec2Isabelle
  imports Complex_Main
begin

section \<open>PneumoScan: the request handlers of \<open>src/app.py\<close>\<close>

text \<open>
  The handlers of the Flask application are embedded as functions from an environment
  (everything the handlers call but do not define: the two Keras models, PIL decoding,
  the Groq client, the uuid generator, the clock, matplotlib, the image loader of
  ReportLab), a server state and a request to a new server state and a response.

  Conventions of the embedding.
  \<^item> Python \<open>str\<close> is \<open>string\<close>, the list of the bytes of its UTF-8 encoding: an ASCII
    character is one byte, any other code point is a lead byte followed by continuation
    bytes (U+00A0 is \<open>0xC2 0xA0\<close>, U+2003 is \<open>0xE2 0x80 0x83\<close>); a list of bytes that
    is not such an encoding stands for no \<open>str\<close>. \<open>strip\<close> removes every code point that \<open>str.isspace\<close> accepts, ASCII or not.
    \<open>lower\<close> maps the ASCII capitals and leaves every other byte as it is: no code
    point outside ASCII is lowered by Python to one of the letters of the allowed
    extensions.
  \<^item> Python \<open>float\<close> is \<open>real\<close>: the scores are exact numbers, the rounding error of
    the IEEE operations and the value NaN are outside the model. \<open>round(x, 2)\<close> is
    rounding to the nearest multiple of \<open>1/100\<close>, ties to the even one.
  \<^item> An exception is a value: an external call returns \<open>exn + 'a\<close>, \<open>Inl\<close> carrying
    the text of the exception.
  \<^item> A \<open>dict\<close> built by the code and a JSON object are association lists, read with
    \<open>map_of\<close>.
\<close>

subsection \<open>Strings\<close>

definition lower_char :: "char \<Rightarrow> char" where
  "lower_char c =
     (case map_of (zip ''ABCDEFGHIJKLMNOPQRSTUVWXYZ'' ''abcdefghijklmnopqrstuvwxyz'') c of
        Some l \<Rightarrow> l
      | None \<Rightarrow> c)"

definition lower :: "string \<Rightarrow> string" where
  "lower s = map lower_char s"

text \<open>
  The code points of a \<open>str\<close>, each as the bytes of its encoding: a continuation byte
  (\<open>0x80\<close> to \<open>0xBF\<close>) belongs to the code point of the byte before it.
\<close>

definition is_continuation :: "char \<Rightarrow> bool" where
  "is_continuation c = (let n = (of_char c :: nat) in 128 \<le> n \<and> n \<le> 191)"

fun attach :: "char \<Rightarrow> string list \<Rightarrow> string list" where
  "attach c ((d # w) # ws) =
     (if is_continuation d then (c # d # w) # ws else [c] # (d # w) # ws)"
| "attach c ws = [c] # ws"

definition code_points :: "string \<Rightarrow> string list" where
  "code_points s = foldr attach s []"

text \<open>
  \<open>str.isspace\<close> of one code point. The code points it accepts are U+0009 to U+000D,
  U+001C to U+0020, U+0085, U+00A0, U+1680, U+2000 to U+200A, U+2028, U+2029, U+202F,
  U+205F and U+3000; the bytes below are their encodings.
\<close>

definition is_space :: "string \<Rightarrow> bool" where
  "is_space w =
     (case (map of_char w :: nat list) of
        [n] \<Rightarrow> (9 \<le> n \<and> n \<le> 13) \<or> (28 \<le> n \<and> n \<le> 32)
      | [a, b] \<Rightarrow> a = 0xC2 \<and> (b = 0x85 \<or> b = 0xA0)
      | [a, b, c] \<Rightarrow>
          (a = 0xE1 \<and> b = 0x9A \<and> c = 0x80)
          \<or> (a = 0xE2 \<and> b = 0x80
               \<and> ((0x80 \<le> c \<and> c \<le> 0x8A) \<or> c = 0xA8 \<or> c = 0xA9 \<or> c = 0xAF))
          \<or> (a = 0xE2 \<and> b = 0x81 \<and> c = 0x9F)
          \<or> (a = 0xE3 \<and> b = 0x80 \<and> c = 0x80)
      | _ \<Rightarrow> False)"

text \<open>\<open>s.strip()\<close>: the white space at both ends is removed.\<close>

definition strip :: "string \<Rightarrow> string" where
  "strip s = concat (rev (dropWhile is_space (rev (dropWhile is_space (code_points s)))))"

text \<open>
  \<open>s.rsplit(c, 1)\<close> for a one-character separator: the text before the last \<open>c\<close> and
  the text after it, or \<open>s\<close> alone when \<open>c\<close> does not occur.
\<close>

definition rsplit1 :: "char \<Rightarrow> string \<Rightarrow> string list" where
  "rsplit1 c s =
     (if c \<in> set s
      then [rev (tl (dropWhile (\<lambda>x. x \<noteq> c) (rev s))), rev (takeWhile (\<lambda>x. x \<noteq> c) (rev s))]
      else [s])"

text \<open>\<open>os.path.join(a, b)\<close> on POSIX, for two components.\<close>

definition os_path_join :: "string \<Rightarrow> string \<Rightarrow> string" where
  "os_path_join a b =
     (if b \<noteq> [] \<and> hd b = CHR ''/'' then b
      else if a = [] \<or> last a = CHR ''/'' then a @ b
      else a @ ''/'' @ b)"

subsection \<open>Numbers\<close>

definition round_half_even :: "real \<Rightarrow> int" where
  "round_half_even y =
     (let f = \<lfloor>y\<rfloor>; d = y - of_int f
      in if d < 1 / 2 then f
         else if 1 / 2 < d then f + 1
         else if even f then f else f + 1)"

text \<open>\<open>round(x, 2)\<close>.\<close>

definition round2 :: "real \<Rightarrow> real" where
  "round2 x = of_int (round_half_even (x * 100)) / 100"

subsection \<open>Data\<close>

type_synonym exn = string
type_synonym bytes = "nat list"
type_synonym tensor = "real list"

datatype jvalue = JStr string | JNum real

type_synonym json_obj = "(string \<times> jvalue) list"

text \<open>The pieces of an f-string: literal text and interpolated values.\<close>

datatype piece = Lit string | Val "jvalue option"

type_synonym fstring = "piece list"

datatype style = title_style | subtitle_style | section_style | body_style | footer_style

datatype colour = RED | GREEN | PRIMARY | GRAY

datatype cell = Text string | Percent real

text \<open>The flowables of the report, in the order \<open>generate_report\<close> appends them.\<close>

datatype flowable =
    Paragraph string style
  | HRFlowable colour
  | Spacer nat
  | InfoTable "cell list list"
  | ResultTable "cell list list" colour
  | Chart "(string \<times> real) list"
  | RLImage string

datatype file_content = Upload bytes | Pdf "flowable list"

datatype response =
    JsonResp json_obj nat
  | Attachment file_content string nat
  | ServerError exn

datatype model_call = GateCall tensor | ClassifierCall tensor

text \<open>
  The server state: the global \<open>latest_analysis\<close>, the files on disk, and the calls that
  the two models have received, in order. A model call is the only thing that extends
  \<open>model_log\<close> (see \<open>run_xray_model\<close> and \<open>run_pneumonia_model\<close>).
\<close>

record server_state =
  latest_analysis :: json_obj
  fs :: "string \<rightharpoonup> file_content"
  model_log :: "model_call list"

record env =
  UPLOAD_FOLDER :: string
  uuid4_hex :: string
  strftime :: "string \<Rightarrow> string"
  decode_image :: "bytes \<Rightarrow> exn + tensor"
  xray_model :: "tensor \<Rightarrow> exn + real"
  pneumonia_model :: "tensor \<Rightarrow> exn + real"
  groq_client :: "(fstring \<Rightarrow> string \<Rightarrow> exn + string) option"
  savefig :: "(string \<times> real) list \<Rightarrow> exn + bytes"
  rlimage_init :: "string \<Rightarrow> exn + unit"
  rlimage_load :: "file_content \<Rightarrow> exn + unit"

record upload =
  filename :: string
  content :: bytes

record predict_request =
  form :: "(string \<times> string) list"
  files :: "(string \<times> upload) list"

definition init_state :: server_state where
  "init_state = \<lparr>latest_analysis = [], fs = Map.empty, model_log = []\<rparr>"

subsection \<open>Helpers of \<open>src/app.py\<close>\<close>

definition ALLOWED_EXTENSIONS :: "string set" where
  "ALLOWED_EXTENSIONS = {''png'', ''jpg'', ''jpeg'', ''bmp'', ''webp''}"

text \<open>The index \<open>[1]\<close> is read only when the filename has a dot (Python's \<open>and\<close>).\<close>

definition allowed_file :: "string \<Rightarrow> bool" where
  "allowed_file fname =
     (CHR ''.'' \<in> set fname \<and> lower (rsplit1 CHR ''.'' fname ! 1) \<in> ALLOWED_EXTENSIONS)"

text \<open>\<open>preprocess_image\<close>: \<open>Image.open\<close> reads the file at the path, the rest is PIL and numpy.\<close>

definition preprocess_image :: "env \<Rightarrow> server_state \<Rightarrow> string \<Rightarrow> exn + tensor" where
  "preprocess_image e st image_path =
     (case fs st image_path of
        Some (Upload bs) \<Rightarrow> decode_image e bs
      | _ \<Rightarrow> Inl ''cannot identify image file'')"

definition XRAY_THRESHOLD :: real where
  "XRAY_THRESHOLD = 0.5"

text \<open>\<open>d.get(k, default)\<close> with the looked-up field given as an option.\<close>

definition get_or :: "'a option \<Rightarrow> 'a \<Rightarrow> 'a" where
  "get_or v d = (case v of None \<Rightarrow> d | Some x \<Rightarrow> x)"

definition form_get :: "(string \<times> string) list \<Rightarrow> string \<Rightarrow> string \<Rightarrow> string" where
  "form_get fm k d = get_or (map_of fm k) d"

text \<open>\<open>x or d\<close> on strings.\<close>

definition str_or :: "string \<Rightarrow> string \<Rightarrow> string" where
  "str_or x d = (if x = [] then d else x)"

subsection \<open>\<open>/predict\<close>\<close>

definition bad_upload :: response where
  "bad_upload =
     JsonResp [(''error'', JStr ''Please upload a valid image (png, jpg, jpeg, bmp, webp).'')] 400"

definition could_not_process :: response where
  "could_not_process =
     JsonResp [(''prediction'', JStr ''Invalid Image''),
               (''message'', JStr ''Could not process the uploaded file. Please upload a valid image.'')] 200"

definition not_an_xray :: response where
  "not_an_xray =
     JsonResp [(''prediction'', JStr ''Invalid Image''),
               (''message'', JStr ''This does not appear to be a chest X-ray. Please upload a valid chest X-ray image.'')] 200"

text \<open>Lines 117 to 125: label, confidence and the two percentages of a classifier score.\<close>

definition stage2_label :: "real \<Rightarrow> string" where
  "stage2_label pred = (if pred > 0.5 then ''PNEUMONIA'' else ''NORMAL'')"

definition stage2_confidence :: "real \<Rightarrow> real" where
  "stage2_confidence pred =
     (if pred > 0.5 then round2 (pred * 100) else round2 ((1 - pred) * 100))"

definition pneumonia_pct :: "real \<Rightarrow> real" where
  "pneumonia_pct pred = round2 (pred * 100)"

definition normal_pct :: "real \<Rightarrow> real" where
  "normal_pct pred = round2 ((1 - pred) * 100)"

text \<open>
  \<open>xray_model.predict(processed)\<close> and \<open>pneumonia_model.predict(processed)\<close>: the model
  is applied to the tensor, and the call is recorded.
\<close>

definition run_xray_model :: "env \<Rightarrow> server_state \<Rightarrow> tensor \<Rightarrow> server_state \<times> (exn + real)" where
  "run_xray_model e st t = (st\<lparr>model_log := model_log st @ [GateCall t]\<rparr>, xray_model e t)"

definition run_pneumonia_model ::
  "env \<Rightarrow> server_state \<Rightarrow> tensor \<Rightarrow> server_state \<times> (exn + real)" where
  "run_pneumonia_model e st t =
     (st\<lparr>model_log := model_log st @ [ClassifierCall t]\<rparr>, pneumonia_model e t)"

text \<open>Stage 2, lines 113 to 149, entered with the state \<open>st\<close> after stage 1.\<close>

definition stage2 ::
  "env \<Rightarrow> server_state \<Rightarrow> tensor \<Rightarrow> string \<Rightarrow> string \<Rightarrow> string \<Rightarrow> string
     \<Rightarrow> server_state \<times> response" where
  "stage2 e st processed fname patient_name patient_age notes =
     (let (st1, answer) = run_pneumonia_model e st processed
      in case answer of
           Inl ex \<Rightarrow> (st1, JsonResp [(''error'', JStr (''Pneumonia prediction failed: '' @ ex))] 500)
         | Inr pred \<Rightarrow>
             (st1\<lparr>latest_analysis :=
                    [(''prediction'', JStr (stage2_label pred)),
                     (''confidence'', JNum (stage2_confidence pred)),
                     (''patient_name'', JStr (str_or patient_name ''the patient'')),
                     (''pneumonia_prob'', JNum (pneumonia_pct pred)),
                     (''normal_prob'', JNum (normal_pct pred)),
                     (''timestamp'', JStr (strftime e ''%Y-%m-%d %H:%M:%S''))]\<rparr>,
              JsonResp [(''prediction'', JStr (stage2_label pred)),
                        (''confidence'', JNum (stage2_confidence pred)),
                        (''pneumonia_prob'', JNum (pneumonia_pct pred)),
                        (''normal_prob'', JNum (normal_pct pred)),
                        (''image_filename'', JStr fname),
                        (''patient_name'', JStr patient_name),
                        (''patient_age'', JStr patient_age),
                        (''notes'', JStr notes)] 200))"

text \<open>Stage 1, lines 100 to 111, and then stage 2.\<close>

definition stage1 ::
  "env \<Rightarrow> server_state \<Rightarrow> tensor \<Rightarrow> string \<Rightarrow> string \<Rightarrow> string \<Rightarrow> string
     \<Rightarrow> server_state \<times> response" where
  "stage1 e st processed fname patient_name patient_age notes =
     (let (st1, answer) = run_xray_model e st processed
      in case answer of
           Inl ex \<Rightarrow> (st1, JsonResp [(''error'', JStr (''X-ray detection failed: '' @ ex))] 500)
         | Inr xray_pred \<Rightarrow>
             if xray_pred < XRAY_THRESHOLD then (st1, not_an_xray)
             else stage2 e st1 processed fname patient_name patient_age notes)"

text \<open>Lines 91 to 98: preprocess once, reuse for both models.\<close>

definition inference ::
  "env \<Rightarrow> server_state \<Rightarrow> string \<Rightarrow> string \<Rightarrow> string \<Rightarrow> string \<Rightarrow> string
     \<Rightarrow> server_state \<times> response" where
  "inference e st filepath fname patient_name patient_age notes =
     (case preprocess_image e st filepath of
        Inl ex \<Rightarrow> (st, could_not_process)
      | Inr processed \<Rightarrow> stage1 e st processed fname patient_name patient_age notes)"

text \<open>Lines 85 to 89: the file is saved under a fresh name with the extension of its own.\<close>

definition save_upload :: "env \<Rightarrow> server_state \<Rightarrow> upload \<Rightarrow> string \<times> string \<times> server_state" where
  "save_upload e st file =
     (let ext = lower (rsplit1 CHR ''.'' (filename file) ! 1);
          fname = uuid4_hex e @ ''.'' @ ext;
          filepath = os_path_join (UPLOAD_FOLDER e) fname
      in (fname, filepath, st\<lparr>fs := (fs st)(filepath \<mapsto> Upload (content file))\<rparr>))"

text \<open>
  The handler. \<open>not file\<close> holds for a missing part and for a part with an empty
  filename.
\<close>

definition predict :: "env \<Rightarrow> server_state \<Rightarrow> predict_request \<Rightarrow> server_state \<times> response" where
  "predict e st req =
     (let patient_name = strip (form_get (form req) ''patient_name'' []);
          patient_age = strip (form_get (form req) ''patient_age'' []);
          notes = strip (form_get (form req) ''notes'' [])
      in case map_of (files req) ''xray'' of
           None \<Rightarrow> (st, bad_upload)
         | Some file \<Rightarrow>
             if filename file = [] \<or> \<not> allowed_file (filename file) then (st, bad_upload)
             else (let (fname, filepath, st1) = save_upload e st file
                   in inference e st1 filepath fname patient_name patient_age notes))"

subsection \<open>\<open>/chat\<close>\<close>

record chat_request =
  message :: "string option"

definition unavailable :: string where
  "unavailable = ''AI assistant is temporarily unavailable. Please try again later.''"

definition context_str :: "json_obj \<Rightarrow> fstring" where
  "context_str la =
     (if la \<noteq> [] then
        [Lit ''Current Analysis Report:\<newline>'',
         Lit ''- Patient: '', Val (map_of la ''patient_name''), Lit ''\<newline>'',
         Lit ''- Prediction: '', Val (map_of la ''prediction''), Lit ''\<newline>'',
         Lit ''- Confidence: '', Val (map_of la ''confidence''), Lit ''%\<newline>'',
         Lit ''- Pneumonia Probability: '', Val (map_of la ''pneumonia_prob''), Lit ''%\<newline>'',
         Lit ''- Normal Probability: '', Val (map_of la ''normal_prob''), Lit ''%\<newline>'',
         Lit ''- Analysis Time: '', Val (map_of la ''timestamp''), Lit ''\<newline>'']
      else [Lit ''No analysis report is currently available.\<newline>''])"

definition system_prompt :: "json_obj \<Rightarrow> fstring" where
  "system_prompt la =
     [Lit ''You are PneumoBot, an expert AI medical assistant for lung health, '',
      Lit ''built into the PneumoScan AI diagnostic platform.\<newline>\<newline>'']
     @ context_str la @
     [Lit ''\<newline>'',
      Lit ''Your Rules:\<newline>'',
      Lit ''1. Answer questions about pneumonia, lung health, and the current report.\<newline>'',
      Lit ''2. Explain the AI prediction clearly to the user.\<newline>'',
      Lit ''3. If Prediction is PNEUMONIA, suggest consulting a pulmonologist immediately.\<newline>'',
      Lit ''4. Provide general advice on precautions (rest, fluids, isolation) if relevant.\<newline>'',
      Lit ''5. You may mention common medicine categories (e.g. antibiotics, antivirals) as '',
      Lit ''general information if asked, but NEVER prescribe specific drugs or dosages.\<newline>'',
      Lit (''6. Always include a short disclaimer: '' @ [CHR 0x22]
           @ ''I am an AI, not a doctor. Please consult a specialist.'' @ [CHR 0x22] @ ''\<newline>''),
      Lit ''7. Keep answers concise (under 3-4 sentences) and empathetic.\<newline>'']"

text \<open>The call of the assistant, lines 192 to 206.\<close>

definition ask_assistant ::
  "(fstring \<Rightarrow> string \<Rightarrow> exn + string) \<Rightarrow> fstring \<Rightarrow> string \<Rightarrow> response" where
  "ask_assistant client prompt user_msg =
     (case client prompt user_msg of
        Inr reply \<Rightarrow> JsonResp [(''reply'', JStr reply)] 200
      | Inl ex \<Rightarrow> JsonResp [(''reply'', JStr unavailable)] 500)"

definition chat :: "env \<Rightarrow> server_state \<Rightarrow> chat_request \<Rightarrow> response" where
  "chat e st req =
     (case groq_client e of
        None \<Rightarrow> JsonResp [(''reply'', JStr unavailable)] 200
      | Some client \<Rightarrow>
          (let user_msg = strip (get_or (message req) [])
           in if user_msg = [] then JsonResp [(''reply'', JStr ''Please say something.'')] 400
              else ask_assistant client (system_prompt (latest_analysis st)) user_msg))"

subsection \<open>\<open>generate_report\<close> of \<open>src/utils/pdf_report.py\<close>\<close>

text \<open>The texts of the report that are not ASCII, as their UTF-8 bytes.\<close>

definition lungs :: string where
  "lungs = [CHR 0xF0, CHR 0x9F, CHR 0xAB, CHR 0x81]"

definition em_dash :: string where
  "em_dash = [CHR 0xE2, CHR 0x80, CHR 0x94]"

definition bullet :: string where
  "bullet = [CHR 0xE2, CHR 0x80, CHR 0xA2]"

definition heart :: string where
  "heart = [CHR 0xE2, CHR 0x9D, CHR 0xA4, CHR 0xEF, CHR 0xB8, CHR 0x8F]"

definition os_path_exists :: "server_state \<Rightarrow> string \<Rightarrow> bool" where
  "os_path_exists st path = (fs st path \<noteq> None)"

text \<open>
  Lines 40 to 66, \<open>_build_chart\<close>: matplotlib draws the two bars and saves them as a PNG;
  line 200 wraps the PNG in an image flowable.
\<close>

definition build_chart :: "env \<Rightarrow> real \<Rightarrow> real \<Rightarrow> exn + flowable" where
  "build_chart e pneumonia_prob normal_prob =
     (case savefig e [(''Normal'', normal_prob), (''Pneumonia'', pneumonia_prob)] of
        Inl ex \<Rightarrow> Inl ex
      | Inr buf \<Rightarrow> Inr (Chart [(''Normal'', normal_prob), (''Pneumonia'', pneumonia_prob)]))"

text \<open>
  Lines 207 to 211. The constructor of ReportLab's image is lazy: it keeps the path and
  leaves the decoding of the file to \<open>doc.build\<close>. It raises when the file cannot be
  opened, and only then is the note appended in place of the image.
\<close>

definition embed_image :: "env \<Rightarrow> string \<Rightarrow> flowable" where
  "embed_image e path =
     (case rlimage_init e path of
        Inr u \<Rightarrow> RLImage path
      | Inl ex \<Rightarrow> Paragraph ''<i>Unable to embed image.</i>'' body_style)"

text \<open>Lines 204 to 212: the section of the uploaded image.\<close>

definition xray_section :: "env \<Rightarrow> server_state \<Rightarrow> string option \<Rightarrow> flowable list" where
  "xray_section e st image_path =
     (case image_path of
        None \<Rightarrow> []
      | Some path \<Rightarrow>
          if path \<noteq> [] \<and> os_path_exists st path
          then [Paragraph ''Uploaded X-ray'' section_style, embed_image e path, Spacer 6]
          else [])"

text \<open>The list \<open>elements\<close>, given the flowable of the chart.\<close>

definition report_elements ::
  "env \<Rightarrow> server_state \<Rightarrow> string \<Rightarrow> string \<Rightarrow> string \<Rightarrow> string \<Rightarrow> real \<Rightarrow> flowable
     \<Rightarrow> string option \<Rightarrow> flowable list" where
  "report_elements e st patient_name patient_age notes prediction confidence chart image_path =
     [Paragraph (lungs @ '' PneumoScan'') title_style,
      Paragraph ''AI Diagnostic Report'' subtitle_style,
      HRFlowable PRIMARY,
      Paragraph (''<b>Date &amp; Time:</b>  ''
                 @ strftime e (''%B %d, %Y  '' @ bullet @ ''  %I:%M %p'')) body_style,
      Spacer 3,
      Paragraph ''Patient Information'' section_style,
      InfoTable [[Text ''Patient Name'', Text (str_or patient_name ''N/A'')],
                 [Text ''Age'', Text (if patient_age \<noteq> [] then patient_age else ''N/A'')],
                 [Text ''Notes'', Text (str_or notes em_dash)]],
      Spacer 4,
      Paragraph ''Analysis Result'' section_style,
      ResultTable [[Text ''Prediction'', Text prediction],
                   [Text ''Confidence'', Percent confidence]]
                  (if prediction = ''PNEUMONIA'' then RED else GREEN),
      Spacer 5,
      Paragraph ''Confidence Chart'' section_style,
      chart,
      Spacer 5]
     @ xray_section e st image_path @
     [HRFlowable GRAY,
      Paragraph (''Made with '' @ heart @ '' by Aditya'') footer_style,
      Paragraph ''This report is generated by PneumoScan AI and is for informational purposes only.''
        footer_style]"

text \<open>
  \<open>doc.build(elements)\<close> draws the flowables in order and then writes the document to
  \<open>output_path\<close>. Drawing an image of a path opens and decodes the file; an exception
  there leaves \<open>doc.build\<close>, and nothing is written.
\<close>

definition draw :: "env \<Rightarrow> server_state \<Rightarrow> flowable \<Rightarrow> exn + unit" where
  "draw e st x =
     (case x of
        RLImage path \<Rightarrow>
          (case fs st path of
             None \<Rightarrow> Inl ''Cannot open resource''
           | Some c \<Rightarrow> rlimage_load e c)
      | _ \<Rightarrow> Inr ())"

fun draw_all :: "env \<Rightarrow> server_state \<Rightarrow> flowable list \<Rightarrow> exn + unit" where
  "draw_all e st [] = Inr ()"
| "draw_all e st (x # xs) =
     (case draw e st x of
        Inl ex \<Rightarrow> Inl ex
      | Inr u \<Rightarrow> draw_all e st xs)"

definition doc_build :: "env \<Rightarrow> server_state \<Rightarrow> string \<Rightarrow> flowable list \<Rightarrow> exn + server_state" where
  "doc_build e st output_path elements =
     (case draw_all e st elements of
        Inl ex \<Rightarrow> Inl ex
      | Inr u \<Rightarrow> Inr (st\<lparr>fs := (fs st)(output_path \<mapsto> Pdf elements)\<rparr>))"

text \<open>\<open>generate_report\<close> catches nothing but the exception of the image constructor.\<close>

definition generate_report ::
  "env \<Rightarrow> server_state \<Rightarrow> string \<Rightarrow> string \<Rightarrow> string \<Rightarrow> string \<Rightarrow> string \<Rightarrow> real \<Rightarrow> real \<Rightarrow> real
     \<Rightarrow> string option \<Rightarrow> exn + server_state" where
  "generate_report e st output_path patient_name patient_age notes prediction confidence
       pneumonia_prob normal_prob image_path =
     (case build_chart e pneumonia_prob normal_prob of
        Inl ex \<Rightarrow> Inl ex
      | Inr chart \<Rightarrow>
          doc_build e st output_path
            (report_elements e st patient_name patient_age notes prediction confidence chart
               image_path))"

subsection \<open>\<open>/download-report\<close>\<close>

text \<open>
  The JSON body: an object whose fields, when present, have the types \<open>/predict\<close> gives
  them.
\<close>

record report_payload =
  d_patient_name :: "string option"
  d_patient_age :: "string option"
  d_notes :: "string option"
  d_prediction :: "string option"
  d_confidence :: "real option"
  d_pneumonia_prob :: "real option"
  d_normal_prob :: "real option"
  d_image_filename :: "string option"

definition send_file :: "server_state \<Rightarrow> string \<Rightarrow> string \<Rightarrow> response" where
  "send_file st path download_name =
     (case fs st path of
        Some c \<Rightarrow> Attachment c download_name 200
      | None \<Rightarrow> ServerError ''FileNotFoundError'')"

text \<open>Lines 222 to 224.\<close>

definition report_image_path :: "env \<Rightarrow> server_state \<Rightarrow> string \<Rightarrow> string option" where
  "report_image_path e st image_filename =
     (if image_filename \<noteq> [] then
        (let image_path = os_path_join (UPLOAD_FOLDER e) image_filename
         in if image_path \<noteq> [] \<and> \<not> os_path_exists st image_path then None else Some image_path)
      else None)"

text \<open>
  The handler catches nothing: an exception of \<open>generate_report\<close> is answered by Flask
  with status 500.
\<close>

definition download_report ::
  "env \<Rightarrow> server_state \<Rightarrow> report_payload \<Rightarrow> server_state \<times> response" where
  "download_report e st data =
     (let patient_name = get_or (d_patient_name data) ''N/A'';
          patient_age = get_or (d_patient_age data) ''N/A'';
          notes = get_or (d_notes data) [];
          prediction = get_or (d_prediction data) ''N/A'';
          confidence = get_or (d_confidence data) 0;
          pneumonia_prob = get_or (d_pneumonia_prob data) 0;
          normal_prob = get_or (d_normal_prob data) 0;
          image_filename = get_or (d_image_filename data) [];
          image_path = report_image_path e st image_filename;
          report_name = ''report_'' @ take 8 (uuid4_hex e) @ ''.pdf'';
          report_path = os_path_join (UPLOAD_FOLDER e) report_name
      in case generate_report e st report_path patient_name patient_age notes prediction
                confidence pneumonia_prob normal_prob image_path of
           Inl ex \<Rightarrow> (st, ServerError ex)
         | Inr st1 \<Rightarrow> (st1, send_file st1 report_path ''PneumoScan_Report.pdf''))"

subsection \<open>The server\<close>

datatype request =
    PredictReq predict_request
  | ChatReq chat_request
  | DownloadReq report_payload

definition handle :: "env \<Rightarrow> server_state \<Rightarrow> request \<Rightarrow> server_state \<times> response" where
  "handle e st r =
     (case r of
        PredictReq p \<Rightarrow> predict e st p
      | ChatReq c \<Rightarrow> (st, chat e st c)
      | DownloadReq d \<Rightarrow> download_report e st d)"

text \<open>
  The state after a sequence of requests, each served in its own environment (its uuid,
  its clock, what the models and the libraries answer).
\<close>

fun run :: "server_state \<Rightarrow> (env \<times> request) list \<Rightarrow> server_state" where
  "run st [] = st"
| "run st ((e, r) # rs) = run (fst (handle e st r)) rs"

subsection \<open>The handler of \<open>src/utils/app.py\<close>\<close>

text \<open>
  Lines 67 to 76, on the row \<open>prediction[0]\<close>: one output is the probability of
  pneumonia, two are the probabilities of normal and of pneumonia. A row with no output
  raises (the handler answers 500).
\<close>

definition utils_probs :: "real list \<Rightarrow> (real \<times> real) option" where
  "utils_probs row =
     (if length row = 1 then Some (row ! 0, 1 - row ! 0)
      else if 2 \<le> length row then Some (row ! 1, row ! 0)
      else None)"

definition utils_label :: "real \<Rightarrow> string" where
  "utils_label pneumonia_prob = (if pneumonia_prob \<ge> 0.5 then ''PNEUMONIA'' else ''NORMAL'')"

definition utils_confidence :: "real \<Rightarrow> real \<Rightarrow> real" where
  "utils_confidence pneumonia_prob normal_prob = round2 (max pneumonia_prob normal_prob * 100)"

text \<open>Label and confidence of the answer.\<close>

definition utils_result :: "real list \<Rightarrow> (string \<times> real) option" where
  "utils_result row =
     (case utils_probs row of
        None \<Rightarrow> None
      | Some (pneumonia_prob, normal_prob) \<Rightarrow>
          Some (utils_label pneumonia_prob, utils_confidence pneumonia_prob normal_prob))"

subsection \<open>Observations and concrete inputs\<close>

definition status_code :: "response \<Rightarrow> nat" where
  "status_code r = (case r of JsonResp b c \<Rightarrow> c | Attachment f n c \<Rightarrow> c | ServerError ex \<Rightarrow> 500)"

definition json_field :: "response \<Rightarrow> string \<Rightarrow> jvalue option" where
  "json_field r k = (case r of JsonResp b c \<Rightarrow> map_of b k | _ \<Rightarrow> None)"

definition is_pdf_attachment :: "response \<Rightarrow> string \<Rightarrow> bool" where
  "is_pdf_attachment r name =
     (case r of Attachment (Pdf els) n c \<Rightarrow> n = name \<and> c = 200 | _ \<Rightarrow> False)"

definition pdf_elements :: "response \<Rightarrow> flowable list" where
  "pdf_elements r = (case r of Attachment (Pdf els) n c \<Rightarrow> els | _ \<Rightarrow> [])"

text \<open>What every value written to the slot satisfies: a diagnosis and a name that is not empty.\<close>

definition stored_ok :: "json_obj \<Rightarrow> bool" where
  "stored_ok la =
     ((map_of la ''prediction'' = Some (JStr ''NORMAL'')
        \<or> map_of la ''prediction'' = Some (JStr ''PNEUMONIA''))
      \<and> (case map_of la ''patient_name'' of Some (JStr n) \<Rightarrow> n \<noteq> [] | _ \<Rightarrow> False))"

text \<open>
  An environment without an assistant: the gate answers 0.92 and the classifier 0.12 (the
  scenario of the specification); an empty file cannot be decoded, neither by PIL in
  \<open>/predict\<close> nor by ReportLab when it builds a report; the chart is drawn, and the image
  constructor accepts every path.
\<close>

definition env0 :: env where
  "env0 =
     \<lparr>UPLOAD_FOLDER = ''static/uploads'',
      uuid4_hex = ''0123456789abcdef0123456789abcdef'',
      strftime = (\<lambda>f. ''2024-01-01 00:00:00''),
      decode_image = (\<lambda>bs. if bs = [] then Inl ''cannot identify image file'' else Inr [1]),
      xray_model = (\<lambda>t. Inr 0.92),
      pneumonia_model = (\<lambda>t. Inr 0.12),
      groq_client = None,
      savefig = (\<lambda>bars. Inr [137, 80]),
      rlimage_init = (\<lambda>path. Inr ()),
      rlimage_load = (\<lambda>c. if c = Upload [] then Inl ''cannot identify image file'' else Inr ())\<rparr>"

definition req_png :: predict_request where
  "req_png =
     \<lparr>form = [(''patient_name'', ''  ''), (''patient_age'', ''41'')],
      files = [(''xray'', \<lparr>filename = ''chest.PNG'', content = [137, 80]\<rparr>)]\<rparr>"

definition req_txt :: predict_request where
  "req_txt = \<lparr>form = [], files = [(''xray'', \<lparr>filename = ''notes.txt'', content = [104, 105]\<rparr>)]\<rparr>"

definition req_corrupt :: predict_request where
  "req_corrupt = \<lparr>form = [], files = [(''xray'', \<lparr>filename = ''scan.jpg'', content = []\<rparr>)]\<rparr>"

text \<open>
  A payload that names the file under which \<open>/predict\<close> has stored the upload of
  \<open>req_corrupt\<close>, and one that names the stored upload of \<open>req_png\<close>.
\<close>

definition data_corrupt :: report_payload where
  "data_corrupt =
     \<lparr>d_patient_name = Some ''Ada'', d_patient_age = Some ''41'', d_notes = None,
      d_prediction = Some ''NORMAL'', d_confidence = Some 88, d_pneumonia_prob = Some 12,
      d_normal_prob = Some 88,
      d_image_filename = Some ''0123456789abcdef0123456789abcdef.jpg''\<rparr>"

definition data_png :: report_payload where
  "data_png = data_corrupt\<lparr>d_image_filename := Some ''0123456789abcdef0123456789abcdef.png''\<rparr>"

section \<open>Properties\<close>

subsection \<open>Strings\<close>

lemmas strip_eval = strip_def code_points_def is_space_def is_continuation_def

lemma concat_attach: "concat (attach c ws) = c # concat ws"
  by (induction c ws rule: attach.induct) simp_all

lemma concat_code_points: "concat (code_points s) = s"
  by (induction s) (simp_all add: code_points_def concat_attach)

subsection \<open>Filenames\<close>

lemma rsplit1_last:
  assumes "c \<notin> set ext"
  shows "rsplit1 c (stem @ c # ext) = [stem, ext]"
proof -
  have r: "rev (stem @ c # ext) = rev ext @ c # rev stem" by simp
  have t: "takeWhile (\<lambda>x. x \<noteq> c) (rev ext @ c # rev stem) = rev ext"
    using assms by (subst takeWhile_append2) auto
  have d: "dropWhile (\<lambda>x. x \<noteq> c) (rev ext @ c # rev stem) = c # rev stem"
    using assms by (subst dropWhile_append2) auto
  show ?thesis unfolding rsplit1_def r t d by simp
qed

lemma allowed_file_nonempty: "allowed_file fname \<Longrightarrow> fname \<noteq> []"
  by (auto simp: allowed_file_def)

lemma not_allowed_no_dot: "CHR ''.'' \<notin> set fname \<Longrightarrow> \<not> allowed_file fname"
  by (simp add: allowed_file_def)

lemma allowed_file_ext:
  assumes "CHR ''.'' \<notin> set ext"
  shows "allowed_file (stem @ CHR ''.'' # ext) = (lower ext \<in> ALLOWED_EXTENSIONS)"
  using rsplit1_last [OF assms, of stem] by (simp add: allowed_file_def)

subsection \<open>The steps of \<open>/predict\<close>\<close>

lemma predict_no_file:
  "map_of (files req) ''xray'' = None \<Longrightarrow> predict e st req = (st, bad_upload)"
  by (simp add: predict_def)

lemma predict_not_allowed:
  "map_of (files req) ''xray'' = Some f \<Longrightarrow> \<not> allowed_file (filename f) \<Longrightarrow>
   predict e st req = (st, bad_upload)"
  by (simp add: predict_def)

lemma preprocess_saved:
  "save_upload e st f = (fname, filepath, st1) \<Longrightarrow>
   preprocess_image e st1 filepath = decode_image e (content f)"
  by (auto simp: save_upload_def preprocess_image_def Let_def)

lemma save_upload_keeps:
  "save_upload e st f = (fname, filepath, st1) \<Longrightarrow>
   latest_analysis st1 = latest_analysis st \<and> model_log st1 = model_log st"
  by (auto simp: save_upload_def Let_def)

lemma predict_accepted:
  assumes "map_of (files req) ''xray'' = Some f" and "allowed_file (filename f)"
    and "save_upload e st f = (fname, filepath, st1)"
  shows "predict e st req =
     inference e st1 filepath fname (strip (form_get (form req) ''patient_name'' []))
       (strip (form_get (form req) ''patient_age'' [])) (strip (form_get (form req) ''notes'' []))"
  using assms allowed_file_nonempty [OF assms(2)] by (simp add: predict_def)

subsection \<open>Rejected uploads\<close>

text \<open>
  Claim C6. \<open>/predict\<close> answers with status 400 and the fixed error message, and leaves the
  state as it was, whenever the part \<open>xray\<close> is absent, or its filename has no dot, or the
  text after the last dot of its filename, lowercased, is none of png, jpg, jpeg, bmp,
  webp. The content of the file plays no part.
\<close>

theorem predict_rejects_upload:
  assumes "map_of (files req) ''xray'' = None
     \<or> (map_of (files req) ''xray'' = Some f \<and> CHR ''.'' \<notin> set (filename f))
     \<or> (map_of (files req) ''xray'' = Some f \<and> filename f = stem @ ''.'' @ ext
          \<and> CHR ''.'' \<notin> set ext \<and> lower ext \<notin> ALLOWED_EXTENSIONS)"
  shows "predict e st req =
     (st, JsonResp [(''error'', JStr ''Please upload a valid image (png, jpg, jpeg, bmp, webp).'')] 400)"
proof -
  consider (absent) "map_of (files req) ''xray'' = None"
    | (nodot) "map_of (files req) ''xray'' = Some f" "CHR ''.'' \<notin> set (filename f)"
    | (ext) "map_of (files req) ''xray'' = Some f" "filename f = stem @ CHR ''.'' # ext"
        "CHR ''.'' \<notin> set ext" "lower ext \<notin> ALLOWED_EXTENSIONS"
    using assms by (elim disjE conjE) auto
  then have "predict e st req = (st, bad_upload)"
  proof cases
    case absent
    then show ?thesis by (rule predict_no_file)
  next
    case nodot
    then show ?thesis by (simp add: predict_not_allowed not_allowed_no_dot)
  next
    case ext
    from ext(2-4) have "\<not> allowed_file (filename f)" by (simp add: allowed_file_ext)
    with ext(1) show ?thesis by (rule predict_not_allowed)
  qed
  then show ?thesis by (simp add: bad_upload_def)
qed

theorem predict_rejects_upload_witness:
  "map_of (files req_txt) ''xray'' = Some \<lparr>filename = ''notes.txt'', content = [104, 105]\<rparr>
   \<and> ''notes.txt'' = ''notes'' @ ''.'' @ ''txt''
   \<and> CHR ''.'' \<notin> set ''txt''
   \<and> lower ''txt'' \<notin> ALLOWED_EXTENSIONS
   \<and> predict env0 init_state req_txt =
       (init_state,
        JsonResp [(''error'', JStr ''Please upload a valid image (png, jpg, jpeg, bmp, webp).'')] 400)"
  using predict_rejects_upload
    [of req_txt "\<lparr>filename = ''notes.txt'', content = [104, 105]\<rparr>" "''notes''" "''txt''"
        env0 init_state]
  by (simp add: req_txt_def lower_def lower_char_def ALLOWED_EXTENSIONS_def)

subsection \<open>Files that cannot be decoded\<close>

text \<open>
  Claim C7. When the uploaded file has an allowed extension and preprocessing raises, the
  answer of \<open>/predict\<close> is the Invalid Image payload with the could-not-process message,
  with status 200.
\<close>

theorem predict_corrupt_image:
  assumes "map_of (files req) ''xray'' = Some f" and "allowed_file (filename f)"
    and "decode_image e (content f) = Inl ex"
  shows "snd (predict e st req) =
     JsonResp [(''prediction'', JStr ''Invalid Image''),
               (''message'', JStr ''Could not process the uploaded file. Please upload a valid image.'')] 200"
proof -
  obtain fname filepath st1 where s: "save_upload e st f = (fname, filepath, st1)"
    by (cases "save_upload e st f") auto
  show ?thesis
    using assms(3) preprocess_saved [OF s]
    by (simp add: predict_accepted [OF assms(1,2) s] inference_def could_not_process_def)
qed

theorem predict_corrupt_image_witness:
  "map_of (files req_corrupt) ''xray'' = Some \<lparr>filename = ''scan.jpg'', content = []\<rparr>
   \<and> allowed_file ''scan.jpg''
   \<and> decode_image env0 [] = Inl ''cannot identify image file''
   \<and> snd (predict env0 init_state req_corrupt) =
       JsonResp [(''prediction'', JStr ''Invalid Image''),
                 (''message'', JStr ''Could not process the uploaded file. Please upload a valid image.'')] 200"
proof -
  have a: "allowed_file ''scan.jpg''"
    using allowed_file_ext [of "''jpg''" "''scan''"]
    by (simp add: lower_def lower_char_def ALLOWED_EXTENSIONS_def)
  have m: "map_of (files req_corrupt) ''xray'' = Some \<lparr>filename = ''scan.jpg'', content = []\<rparr>"
    by (simp add: req_corrupt_def)
  have d: "decode_image env0 [] = Inl ''cannot identify image file''"
    by (simp add: env0_def)
  show ?thesis
    using predict_corrupt_image
      [of req_corrupt "\<lparr>filename = ''scan.jpg'', content = []\<rparr>" env0
          "''cannot identify image file''" init_state]
      a m d
    by simp
qed

lemma inference_decoded:
  "preprocess_image e st filepath = Inr t \<Longrightarrow>
   inference e st filepath fname pn pa nt = stage1 e st t fname pn pa nt"
  by (simp add: inference_def)

lemma stage1_rejects:
  "xray_model e t = Inr s \<Longrightarrow> s < 0.5 \<Longrightarrow>
   stage1 e st t fname pn pa nt = (st\<lparr>model_log := model_log st @ [GateCall t]\<rparr>, not_an_xray)"
  by (simp add: stage1_def run_xray_model_def XRAY_THRESHOLD_def)

lemma stage1_passes:
  "xray_model e t = Inr s \<Longrightarrow> \<not> s < 0.5 \<Longrightarrow>
   stage1 e st t fname pn pa nt =
     stage2 e (st\<lparr>model_log := model_log st @ [GateCall t]\<rparr>) t fname pn pa nt"
  by (simp add: stage1_def run_xray_model_def XRAY_THRESHOLD_def)

lemma stage2_log:
  "model_log (fst (stage2 e st t fname pn pa nt)) = model_log st @ [ClassifierCall t]"
  by (simp add: stage2_def run_pneumonia_model_def split: sum.splits)

lemma stage2_failed:
  "pneumonia_model e t = Inl ex \<Longrightarrow>
   stage2 e st t fname pn pa nt =
     (st\<lparr>model_log := model_log st @ [ClassifierCall t]\<rparr>,
      JsonResp [(''error'', JStr (''Pneumonia prediction failed: '' @ ex))] 500)"
  by (simp add: stage2_def run_pneumonia_model_def)

lemma stage2_scored:
  "pneumonia_model e t = Inr p \<Longrightarrow>
   stage2 e st t fname pn pa nt =
     (st\<lparr>model_log := model_log st @ [ClassifierCall t],
         latest_analysis :=
           [(''prediction'', JStr (stage2_label p)),
            (''confidence'', JNum (stage2_confidence p)),
            (''patient_name'', JStr (str_or pn ''the patient'')),
            (''pneumonia_prob'', JNum (pneumonia_pct p)),
            (''normal_prob'', JNum (normal_pct p)),
            (''timestamp'', JStr (strftime e ''%Y-%m-%d %H:%M:%S''))]\<rparr>,
      JsonResp [(''prediction'', JStr (stage2_label p)),
                (''confidence'', JNum (stage2_confidence p)),
                (''pneumonia_prob'', JNum (pneumonia_pct p)),
                (''normal_prob'', JNum (normal_pct p)),
                (''image_filename'', JStr fname),
                (''patient_name'', JStr pn),
                (''patient_age'', JStr pa),
                (''notes'', JStr nt)] 200)"
  by (simp add: stage2_def run_pneumonia_model_def)

lemma stage2_confidence_max: "stage2_confidence p = round2 (max p (1 - p) * 100)"
proof (cases "p > 0.5")
  case True
  then have "max p (1 - p) = p" by (simp add: max_def)
  with True show ?thesis by (simp add: stage2_confidence_def)
next
  case False
  then have "max p (1 - p) = 1 - p" by (simp add: max_def)
  with False show ?thesis by (simp add: stage2_confidence_def)
qed

text \<open>The run of \<open>/predict\<close> that reaches the end of stage 2.\<close>

lemma predict_scored:
  assumes "map_of (files req) ''xray'' = Some f" and "allowed_file (filename f)"
    and "decode_image e (content f) = Inr t" and "xray_model e t = Inr s" and "\<not> s < 0.5"
    and "pneumonia_model e t = Inr p"
  shows "snd (predict e st req) =
      JsonResp [(''prediction'', JStr (stage2_label p)),
                (''confidence'', JNum (stage2_confidence p)),
                (''pneumonia_prob'', JNum (pneumonia_pct p)),
                (''normal_prob'', JNum (normal_pct p)),
                (''image_filename'', JStr (fst (save_upload e st f))),
                (''patient_name'', JStr (strip (form_get (form req) ''patient_name'' []))),
                (''patient_age'', JStr (strip (form_get (form req) ''patient_age'' []))),
                (''notes'', JStr (strip (form_get (form req) ''notes'' [])))] 200"
    and "latest_analysis (fst (predict e st req)) =
      [(''prediction'', JStr (stage2_label p)),
       (''confidence'', JNum (stage2_confidence p)),
       (''patient_name'', JStr (str_or (strip (form_get (form req) ''patient_name'' [])) ''the patient'')),
       (''pneumonia_prob'', JNum (pneumonia_pct p)),
       (''normal_prob'', JNum (normal_pct p)),
       (''timestamp'', JStr (strftime e ''%Y-%m-%d %H:%M:%S''))]"
proof -
  obtain fname filepath st1 where s: "save_upload e st f = (fname, filepath, st1)"
    by (cases "save_upload e st f") auto
  have p: "preprocess_image e st1 filepath = Inr t"
    using preprocess_saved [OF s] assms(3) by simp
  have i: "predict e st req =
      stage2 e (st1\<lparr>model_log := model_log st1 @ [GateCall t]\<rparr>) t fname
        (strip (form_get (form req) ''patient_name'' []))
        (strip (form_get (form req) ''patient_age'' [])) (strip (form_get (form req) ''notes'' []))"
    by (simp add: predict_accepted [OF assms(1,2) s] inference_decoded [OF p]
        stage1_passes [OF assms(4,5)])
  show "snd (predict e st req) =
      JsonResp [(''prediction'', JStr (stage2_label p)),
                (''confidence'', JNum (stage2_confidence p)),
                (''pneumonia_prob'', JNum (pneumonia_pct p)),
                (''normal_prob'', JNum (normal_pct p)),
                (''image_filename'', JStr (fst (save_upload e st f))),
                (''patient_name'', JStr (strip (form_get (form req) ''patient_name'' []))),
                (''patient_age'', JStr (strip (form_get (form req) ''patient_age'' []))),
                (''notes'', JStr (strip (form_get (form req) ''notes'' [])))] 200"
    by (simp add: i stage2_scored [OF assms(6)] s)
  show "latest_analysis (fst (predict e st req)) =
      [(''prediction'', JStr (stage2_label p)),
       (''confidence'', JNum (stage2_confidence p)),
       (''patient_name'', JStr (str_or (strip (form_get (form req) ''patient_name'' [])) ''the patient'')),
       (''pneumonia_prob'', JNum (pneumonia_pct p)),
       (''normal_prob'', JNum (normal_pct p)),
       (''timestamp'', JStr (strftime e ''%Y-%m-%d %H:%M:%S''))]"
    by (simp add: i stage2_scored [OF assms(6)])
qed

text \<open>The upload and the environment of the examples.\<close>

lemma chest_png_allowed: "allowed_file ''chest.PNG''"
  using allowed_file_ext [of "''PNG''" "''chest''"]
  by (simp add: lower_def lower_char_def ALLOWED_EXTENSIONS_def)

lemma req_png_file:
  "map_of (files req_png) ''xray'' = Some \<lparr>filename = ''chest.PNG'', content = [137, 80]\<rparr>"
  by (simp add: req_png_def)

lemma env0_decodes: "decode_image (env0\<lparr>xray_model := g\<rparr>) [137, 80] = Inr [1]"
  "decode_image env0 [137, 80] = Inr [1]"
  "decode_image (env0\<lparr>pneumonia_model := h\<rparr>) [137, 80] = Inr [1]"
  by (simp_all add: env0_def)

subsection \<open>The gate\<close>

text \<open>
  Claim C1. Let the upload be accepted and decoded to the tensor \<open>t\<close>, and let the gate
  model answer the score \<open>s\<close> on \<open>t\<close>. If \<open>s < 0.5\<close>, the answer of \<open>/predict\<close> is the
  Invalid Image payload saying that this does not appear to be a chest X-ray, the only
  model call of the request is the call of the gate (the classifier is not run), and
  \<open>latest_analysis\<close> is what it was. If \<open>s \<ge> 0.5\<close>, the classifier is called next, on
  the same tensor \<open>t\<close>, and the answer of \<open>/predict\<close> is made of what the classifier
  answers on \<open>t\<close>: its exception in an error with status 500, or the label, the
  confidence and the percentages of its score with status 200.
\<close>

theorem predict_gate:
  assumes "map_of (files req) ''xray'' = Some f" and "allowed_file (filename f)"
    and "decode_image e (content f) = Inr t" and "xray_model e t = Inr s"
  shows "(s < 0.5 \<longrightarrow>
            snd (predict e st req) =
              JsonResp [(''prediction'', JStr ''Invalid Image''),
                        (''message'', JStr ''This does not appear to be a chest X-ray. Please upload a valid chest X-ray image.'')] 200
            \<and> model_log (fst (predict e st req)) = model_log st @ [GateCall t]
            \<and> latest_analysis (fst (predict e st req)) = latest_analysis st)
       \<and> (0.5 \<le> s \<longrightarrow>
            model_log (fst (predict e st req)) = model_log st @ [GateCall t, ClassifierCall t]
            \<and> (case pneumonia_model e t of
                  Inl ex \<Rightarrow>
                    snd (predict e st req) =
                      JsonResp [(''error'', JStr (''Pneumonia prediction failed: '' @ ex))] 500
                | Inr p \<Rightarrow>
                    status_code (snd (predict e st req)) = 200
                    \<and> json_field (snd (predict e st req)) ''prediction'' =
                        Some (JStr (if p > 0.5 then ''PNEUMONIA'' else ''NORMAL''))
                    \<and> json_field (snd (predict e st req)) ''confidence'' =
                        Some (JNum (round2 (max p (1 - p) * 100)))
                    \<and> json_field (snd (predict e st req)) ''pneumonia_prob'' =
                        Some (JNum (round2 (p * 100)))
                    \<and> json_field (snd (predict e st req)) ''normal_prob'' =
                        Some (JNum (round2 ((1 - p) * 100)))))"
proof -
  obtain fname filepath st1 where s: "save_upload e st f = (fname, filepath, st1)"
    by (cases "save_upload e st f") auto
  have k: "latest_analysis st1 = latest_analysis st" "model_log st1 = model_log st"
    using save_upload_keeps [OF s] by simp_all
  have p: "preprocess_image e st1 filepath = Inr t"
    using preprocess_saved [OF s] assms(3) by simp
  have i: "predict e st req = stage1 e st1 t fname (strip (form_get (form req) ''patient_name'' []))
       (strip (form_get (form req) ''patient_age'' [])) (strip (form_get (form req) ''notes'' []))"
    by (simp add: predict_accepted [OF assms(1,2) s] inference_decoded [OF p])
  show ?thesis
  proof (cases "s < 0.5")
    case True
    then show ?thesis
      by (simp add: i stage1_rejects [OF assms(4) True] k not_an_xray_def)
  next
    case False
    show ?thesis
    proof (cases "pneumonia_model e t")
      case (Inl ex)
      with False show ?thesis
        by (simp add: i stage1_passes [OF assms(4) False] stage2_failed [OF Inl] k)
    next
      case (Inr p)
      with False show ?thesis
        by (simp add: i stage1_passes [OF assms(4) False] stage2_scored [OF Inr] k
            status_code_def json_field_def stage2_label_def stage2_confidence_max
            pneumonia_pct_def normal_pct_def)
    qed
  qed
qed

theorem predict_gate_witness:
  "snd (predict (env0\<lparr>xray_model := (\<lambda>t. Inr 0.3)\<rparr>) init_state req_png) =
     JsonResp [(''prediction'', JStr ''Invalid Image''),
               (''message'', JStr ''This does not appear to be a chest X-ray. Please upload a valid chest X-ray image.'')] 200
   \<and> model_log (fst (predict (env0\<lparr>xray_model := (\<lambda>t. Inr 0.3)\<rparr>) init_state req_png)) = [GateCall [1]]
   \<and> latest_analysis (fst (predict (env0\<lparr>xray_model := (\<lambda>t. Inr 0.3)\<rparr>) init_state req_png)) = []
   \<and> model_log (fst (predict env0 init_state req_png)) = [GateCall [1], ClassifierCall [1]]
   \<and> json_field (snd (predict env0 init_state req_png)) ''prediction'' = Some (JStr ''NORMAL'')
   \<and> json_field (snd (predict env0 init_state req_png)) ''pneumonia_prob'' = Some (JNum 12)
   \<and> snd (predict (env0\<lparr>pneumonia_model := (\<lambda>t. Inl ''out of memory'')\<rparr>) init_state req_png) =
       JsonResp [(''error'', JStr ''Pneumonia prediction failed: out of memory'')] 500"
proof -
  have lo: "xray_model (env0\<lparr>xray_model := (\<lambda>t. Inr 0.3)\<rparr>) [1] = Inr 0.3" by simp
  have hi: "xray_model env0 [1] = Inr 0.92"
    "xray_model (env0\<lparr>pneumonia_model := (\<lambda>t. Inl ''out of memory'')\<rparr>) [1] = Inr 0.92"
    by (simp_all add: env0_def)
  have c: "pneumonia_model env0 [1] = Inr 0.12" by (simp add: env0_def)
  have r: "round2 (0.12 * 100) = 12"
    by (simp add: round2_def round_half_even_def Let_def)
  show ?thesis
    using predict_gate [OF req_png_file _ _ lo, of init_state]
      predict_gate [OF req_png_file _ _ hi(1), of init_state]
      predict_gate [OF req_png_file _ _ hi(2), of init_state]
      chest_png_allowed env0_decodes c r
    by (simp add: init_state_def)
qed

subsection \<open>Label, confidence and percentages\<close>

text \<open>
  Claim C2. When \<open>/predict\<close> reaches stage 2 and the classifier answers the score \<open>p\<close>
  (any score, in particular one in \<open>[0,1]\<close>), the answer has status 200, its label is
  PNEUMONIA if \<open>p > 0.5\<close> and NORMAL otherwise, so it is PNEUMONIA exactly when
  \<open>p > 0.5\<close>, and its confidence is \<open>round(max(p, 1-p) * 100, 2)\<close>.
\<close>

theorem predict_label_confidence:
  assumes "map_of (files req) ''xray'' = Some f" and "allowed_file (filename f)"
    and "decode_image e (content f) = Inr t" and "xray_model e t = Inr s" and "\<not> s < 0.5"
    and "pneumonia_model e t = Inr p"
  shows "status_code (snd (predict e st req)) = 200
     \<and> json_field (snd (predict e st req)) ''prediction'' =
         Some (JStr (if p > 0.5 then ''PNEUMONIA'' else ''NORMAL''))
     \<and> (json_field (snd (predict e st req)) ''prediction'' = Some (JStr ''PNEUMONIA'')) = (p > 0.5)
     \<and> json_field (snd (predict e st req)) ''confidence'' =
         Some (JNum (round2 (max p (1 - p) * 100)))"
  by (simp add: predict_scored(1) [OF assms] status_code_def json_field_def stage2_label_def
      stage2_confidence_max)

theorem predict_label_confidence_witness:
  "status_code (snd (predict env0 init_state req_png)) = 200
   \<and> json_field (snd (predict env0 init_state req_png)) ''prediction'' = Some (JStr ''NORMAL'')
   \<and> json_field (snd (predict env0 init_state req_png)) ''confidence'' = Some (JNum 88)"
proof -
  have g: "xray_model env0 [1] = Inr 0.92" "\<not> (0.92::real) < 0.5"
    and c: "pneumonia_model env0 [1] = Inr 0.12"
    by (simp_all add: env0_def)
  have r: "round2 (max 0.12 (1 - 0.12) * 100) = 88"
    by (simp add: round2_def round_half_even_def Let_def)
  show ?thesis
    using predict_label_confidence
      [where req = req_png and f = "\<lparr>filename = ''chest.PNG'', content = [137, 80]\<rparr>"
         and e = env0 and t = "[1]" and s = "0.92" and p = "0.12" and st = init_state]
      req_png_file chest_png_allowed env0_decodes(2) g c r
    by simp
qed

lemma round_half_even_close: "\<bar>real_of_int (round_half_even y) - y\<bar> \<le> 1 / 2"
proof -
  have "real_of_int \<lfloor>y\<rfloor> \<le> y" and "y < real_of_int \<lfloor>y\<rfloor> + 1" by linarith+
  then show ?thesis
    by (auto simp: round_half_even_def Let_def)
qed

lemma round2_close: "\<bar>round2 x - x\<bar> \<le> 1 / 200"
proof -
  have "\<bar>real_of_int (round_half_even (x * 100)) - x * 100\<bar> \<le> 1 / 2"
    by (rule round_half_even_close)
  then show ?thesis by (simp add: round2_def abs_le_iff field_simps)
qed

lemma percentages_sum: "\<bar>round2 (p * 100) + round2 ((1 - p) * 100) - 100\<bar> \<le> 1 / 100"
proof -
  have a: "\<bar>round2 (p * 100) - p * 100\<bar> \<le> 1 / 200" by (rule round2_close)
  have b: "\<bar>round2 ((1 - p) * 100) - (1 - p) * 100\<bar> \<le> 1 / 200" by (rule round2_close)
  have "round2 (p * 100) + round2 ((1 - p) * 100) - 100 =
      (round2 (p * 100) - p * 100) + (round2 ((1 - p) * 100) - (1 - p) * 100)"
    by (simp add: algebra_simps)
  with a b show ?thesis by linarith
qed

text \<open>
  Claim C5. When \<open>/predict\<close> reaches stage 2 and the classifier answers the score \<open>p\<close>
  (any score, in particular one in \<open>[0,1]\<close>), the answer carries
  \<open>pneumonia_prob = round(p * 100, 2)\<close> and \<open>normal_prob = round((1 - p) * 100, 2)\<close>, and
  the sum of the two differs from 100 by at most 0.01.
\<close>

theorem predict_percentages:
  assumes "map_of (files req) ''xray'' = Some f" and "allowed_file (filename f)"
    and "decode_image e (content f) = Inr t" and "xray_model e t = Inr s" and "\<not> s < 0.5"
    and "pneumonia_model e t = Inr p"
  shows "json_field (snd (predict e st req)) ''pneumonia_prob'' = Some (JNum (round2 (p * 100)))
     \<and> json_field (snd (predict e st req)) ''normal_prob'' = Some (JNum (round2 ((1 - p) * 100)))
     \<and> \<bar>round2 (p * 100) + round2 ((1 - p) * 100) - 100\<bar> \<le> 0.01"
  using percentages_sum [of p]
  by (simp add: predict_scored(1) [OF assms] json_field_def pneumonia_pct_def normal_pct_def)

theorem predict_percentages_witness:
  "json_field (snd (predict env0 init_state req_png)) ''pneumonia_prob'' = Some (JNum 12)
   \<and> json_field (snd (predict env0 init_state req_png)) ''normal_prob'' = Some (JNum 88)"
proof -
  have g: "xray_model env0 [1] = Inr 0.92" "\<not> (0.92::real) < 0.5"
    and c: "pneumonia_model env0 [1] = Inr 0.12"
    by (simp_all add: env0_def)
  have r: "round2 (0.12 * 100) = 12" "round2 ((1 - 0.12) * 100) = 88"
    by (simp_all add: round2_def round_half_even_def Let_def)
  show ?thesis
    using predict_percentages
      [where req = req_png and f = "\<lparr>filename = ''chest.PNG'', content = [137, 80]\<rparr>"
         and e = env0 and t = "[1]" and s = "0.92" and p = "0.12" and st = init_state]
      req_png_file chest_png_allowed env0_decodes(2) g c r
    by simp
qed

subsection \<open>The slot \<open>latest_analysis\<close>\<close>

text \<open>
  Claim C4, as amended. After every \<open>/predict\<close> call that reaches the end of stage 2,
  whatever \<open>latest_analysis\<close> held before, it holds the record of exactly the six fields
  prediction, confidence, patient_name, pneumonia_prob, normal_prob and timestamp, with
  the values of the answer (the patient name replaced by a placeholder when empty) and
  the time of the call; patient_age, notes and image_filename are not stored.
\<close>

theorem predict_stores_latest:
  assumes "map_of (files req) ''xray'' = Some f" and "allowed_file (filename f)"
    and "decode_image e (content f) = Inr t" and "xray_model e t = Inr s" and "\<not> s < 0.5"
    and "pneumonia_model e t = Inr p"
  shows "latest_analysis (fst (predict e st req)) =
      [(''prediction'', JStr (if p > 0.5 then ''PNEUMONIA'' else ''NORMAL'')),
       (''confidence'', JNum (round2 (max p (1 - p) * 100))),
       (''patient_name'', JStr (str_or (strip (form_get (form req) ''patient_name'' [])) ''the patient'')),
       (''pneumonia_prob'', JNum (round2 (p * 100))),
       (''normal_prob'', JNum (round2 ((1 - p) * 100))),
       (''timestamp'', JStr (strftime e ''%Y-%m-%d %H:%M:%S''))]
     \<and> map_of (latest_analysis (fst (predict e st req))) ''patient_age'' = None
     \<and> map_of (latest_analysis (fst (predict e st req))) ''notes'' = None
     \<and> map_of (latest_analysis (fst (predict e st req))) ''image_filename'' = None"
  by (simp add: predict_scored(2) [OF assms] stage2_label_def stage2_confidence_max
      pneumonia_pct_def normal_pct_def)

theorem predict_stores_latest_witness:
  "latest_analysis (fst (predict env0 (init_state\<lparr>latest_analysis := [(''prediction'', JStr ''PNEUMONIA'')]\<rparr>) req_png)) =
      [(''prediction'', JStr ''NORMAL''),
       (''confidence'', JNum 88),
       (''patient_name'', JStr ''the patient''),
       (''pneumonia_prob'', JNum 12),
       (''normal_prob'', JNum 88),
       (''timestamp'', JStr ''2024-01-01 00:00:00'')]"
proof -
  have g: "xray_model env0 [1] = Inr 0.92" "\<not> (0.92::real) < 0.5"
    and c: "pneumonia_model env0 [1] = Inr 0.12"
    and t: "strftime env0 ''%Y-%m-%d %H:%M:%S'' = ''2024-01-01 00:00:00''"
    by (simp_all add: env0_def)
  have r: "round2 (max 0.12 (1 - 0.12) * 100) = 88" "round2 (0.12 * 100) = 12"
    "round2 ((1 - 0.12) * 100) = 88"
    by (simp_all add: round2_def round_half_even_def Let_def)
  have n: "str_or (strip (form_get (form req_png) ''patient_name'' [])) ''the patient'' = ''the patient''"
    by (simp add: req_png_def form_get_def get_or_def strip_eval str_or_def)
  show ?thesis
    using predict_stores_latest
      [where req = req_png and f = "\<lparr>filename = ''chest.PNG'', content = [137, 80]\<rparr>"
         and e = env0 and t = "[1]" and s = "0.92" and p = "0.12"
         and st = "init_state\<lparr>latest_analysis := [(''prediction'', JStr ''PNEUMONIA'')]\<rparr>"]
      req_png_file chest_png_allowed env0_decodes(2) g c r n t
    by simp
qed

text \<open>
  The claim as it was stated fails: the request below is served with status 200 and
  carries an age, and the slot has no field patient_age, notes or image_filename
  afterwards.
\<close>

theorem predict_stores_latest_counterexample:
  "status_code (snd (predict env0 init_state req_png)) = 200
   \<and> json_field (snd (predict env0 init_state req_png)) ''patient_age'' = Some (JStr ''41'')
   \<and> map_of (latest_analysis (fst (predict env0 init_state req_png))) ''patient_age'' = None
   \<and> map_of (latest_analysis (fst (predict env0 init_state req_png))) ''notes'' = None
   \<and> map_of (latest_analysis (fst (predict env0 init_state req_png))) ''image_filename'' = None"
proof -
  have g: "xray_model env0 [1] = Inr 0.92" "\<not> (0.92::real) < 0.5"
    and c: "pneumonia_model env0 [1] = Inr 0.12"
    by (simp_all add: env0_def)
  have a: "strip (form_get (form req_png) ''patient_age'' []) = ''41''"
    by (simp add: req_png_def form_get_def get_or_def strip_eval)
  show ?thesis
    using a
    by (simp add: predict_scored [OF req_png_file _ _ g c] chest_png_allowed env0_decodes(2)
        status_code_def json_field_def)
qed

lemma stage2_slot:
  "latest_analysis (fst (stage2 e st t fname pn pa nt)) = latest_analysis st
   \<or> stored_ok (latest_analysis (fst (stage2 e st t fname pn pa nt)))"
  by (simp add: stage2_def run_pneumonia_model_def stored_ok_def stage2_label_def str_or_def
      split: sum.splits)

lemma stage1_slot:
  "latest_analysis (fst (stage1 e st t fname pn pa nt)) = latest_analysis st
   \<or> stored_ok (latest_analysis (fst (stage1 e st t fname pn pa nt)))"
  using stage2_slot [of e "st\<lparr>model_log := model_log st @ [GateCall t]\<rparr>" t fname pn pa nt]
  by (simp add: stage1_def run_xray_model_def split: sum.splits)

lemma inference_slot:
  "latest_analysis (fst (inference e st filepath fname pn pa nt)) = latest_analysis st
   \<or> stored_ok (latest_analysis (fst (inference e st filepath fname pn pa nt)))"
  using stage1_slot by (simp add: inference_def split: sum.splits)

lemma predict_slot:
  "latest_analysis (fst (predict e st req)) = latest_analysis st
   \<or> stored_ok (latest_analysis (fst (predict e st req)))"
proof (cases "map_of (files req) ''xray''")
  case None
  then show ?thesis by (simp add: predict_no_file)
next
  case (Some f)
  show ?thesis
  proof (cases "allowed_file (filename f)")
    case False
    with Some show ?thesis by (simp add: predict_not_allowed)
  next
    case True
    obtain fname filepath st1 where s: "save_upload e st f = (fname, filepath, st1)"
      by (cases "save_upload e st f") auto
    show ?thesis
      using inference_slot [of e st1 filepath fname] save_upload_keeps [OF s]
      by (simp add: predict_accepted [OF Some True s])
  qed
qed

lemma download_report_slot:
  "latest_analysis (fst (download_report e st d)) = latest_analysis st"
  by (simp add: download_report_def generate_report_def doc_build_def Let_def
      split: sum.splits)

lemma handle_slot:
  "latest_analysis (fst (handle e st r)) = latest_analysis st
   \<or> stored_ok (latest_analysis (fst (handle e st r)))"
  by (cases r) (simp_all add: handle_def predict_slot download_report_slot)

lemma run_slot:
  "latest_analysis st = [] \<or> stored_ok (latest_analysis st) \<Longrightarrow>
   latest_analysis (run st rs) = [] \<or> stored_ok (latest_analysis (run st rs))"
proof (induction rs arbitrary: st)
  case Nil
  then show ?case by simp
next
  case (Cons x rs)
  obtain e r where x: "x = (e, r)" by (cases x)
  have "latest_analysis (fst (handle e st r)) = [] \<or> stored_ok (latest_analysis (fst (handle e st r)))"
    using handle_slot [of e st r] Cons.prems by auto
  then show ?case using Cons.IH x by simp
qed

text \<open>
  Claim C9. The slot starts empty. After any sequence of requests it is empty or holds a
  value whose prediction is NORMAL or PNEUMONIA and whose patient_name is not empty. And
  when a \<open>/predict\<close> call reaches the end of stage 2 with a submitted patient name that is
  empty after stripping, the slot holds the name \<open>the patient\<close> while the answer returns
  the empty string.
\<close>

theorem latest_analysis_invariant:
  "latest_analysis init_state = []
   \<and> (latest_analysis (run init_state rs) = [] \<or> stored_ok (latest_analysis (run init_state rs)))
   \<and> (map_of (files req) ''xray'' = Some f \<and> allowed_file (filename f)
        \<and> decode_image e (content f) = Inr t \<and> xray_model e t = Inr s \<and> \<not> s < 0.5
        \<and> pneumonia_model e t = Inr p \<and> strip (form_get (form req) ''patient_name'' []) = []
      \<longrightarrow> map_of (latest_analysis (fst (predict e st req))) ''patient_name'' = Some (JStr ''the patient'')
          \<and> json_field (snd (predict e st req)) ''patient_name'' = Some (JStr []))"
proof -
  have i: "latest_analysis init_state = []" by (simp add: init_state_def)
  have "map_of (latest_analysis (fst (predict e st req))) ''patient_name'' = Some (JStr ''the patient'')
      \<and> json_field (snd (predict e st req)) ''patient_name'' = Some (JStr [])"
    if "map_of (files req) ''xray'' = Some f" "allowed_file (filename f)"
      "decode_image e (content f) = Inr t" "xray_model e t = Inr s" "\<not> s < 0.5"
      "pneumonia_model e t = Inr p" "strip (form_get (form req) ''patient_name'' []) = []"
    using that(7) by (simp add: predict_scored [OF that(1-6)] json_field_def str_or_def)
  then show ?thesis using i run_slot [of init_state rs] by blast
qed

theorem latest_analysis_invariant_witness:
  "stored_ok (latest_analysis (run init_state [(env0, PredictReq req_png)]))
   \<and> strip (form_get (form req_png) ''patient_name'' []) = []
   \<and> map_of (latest_analysis (fst (predict env0 init_state req_png))) ''patient_name'' = Some (JStr ''the patient'')
   \<and> json_field (snd (predict env0 init_state req_png)) ''patient_name'' = Some (JStr [])"
proof -
  have g: "xray_model env0 [1] = Inr 0.92" "\<not> (0.92::real) < 0.5"
    and c: "pneumonia_model env0 [1] = Inr 0.12"
    by (simp_all add: env0_def)
  have n: "strip (form_get (form req_png) ''patient_name'' []) = []"
    by (simp add: req_png_def form_get_def get_or_def strip_eval)
  have l: "latest_analysis (run init_state [(env0, PredictReq req_png)]) \<noteq> []"
    by (simp add: handle_def predict_scored(2) [OF req_png_file _ _ g c] chest_png_allowed
        env0_decodes(2))
  show ?thesis
    using latest_analysis_invariant
      [where rs = "[(env0, PredictReq req_png)]" and req = req_png
         and f = "\<lparr>filename = ''chest.PNG'', content = [137, 80]\<rparr>"
         and e = env0 and t = "[1]" and s = "0.92" and p = "0.12" and st = init_state]
      req_png_file chest_png_allowed env0_decodes(2) g c n l
    by simp
qed

subsection \<open>\<open>/chat\<close>\<close>

text \<open>
  Claim C3, as amended. With the assistant configured, a message that is absent, empty or
  only white space (ASCII or not) is answered with status 400. With the assistant not
  configured, every message, empty or not, is answered with the fixed unavailable reply
  and status 200.
\<close>

theorem chat_empty_or_disabled:
  "(groq_client e = Some client \<and> strip (get_or (message req) []) = []
      \<longrightarrow> chat e st req = JsonResp [(''reply'', JStr ''Please say something.'')] 400)
   \<and> (groq_client e = None
      \<longrightarrow> chat e st req =
            JsonResp [(''reply'', JStr ''AI assistant is temporarily unavailable. Please try again later.'')] 200)"
  by (simp add: chat_def unavailable_def Let_def)

text \<open>
  The instances: two spaces; an em space (U+2003) followed by a no-break space (U+00A0);
  no message at all; and a question put to a server without assistant.
\<close>

theorem chat_empty_or_disabled_witness:
  "strip (get_or (message \<lparr>message = Some ''  ''\<rparr>) []) = []
   \<and> chat (env0\<lparr>groq_client := Some (\<lambda>prompt msg. Inr ''Rest well.'')\<rparr>) init_state
        \<lparr>message = Some ''  ''\<rparr> =
       JsonResp [(''reply'', JStr ''Please say something.'')] 400
   \<and> strip [CHR 0xE2, CHR 0x80, CHR 0x83, CHR 0xC2, CHR 0xA0] = []
   \<and> chat (env0\<lparr>groq_client := Some (\<lambda>prompt msg. Inr ''Rest well.'')\<rparr>) init_state
        \<lparr>message = Some [CHR 0xE2, CHR 0x80, CHR 0x83, CHR 0xC2, CHR 0xA0]\<rparr> =
       JsonResp [(''reply'', JStr ''Please say something.'')] 400
   \<and> chat (env0\<lparr>groq_client := Some (\<lambda>prompt msg. Inr ''Rest well.'')\<rparr>) init_state
        \<lparr>message = None\<rparr> =
       JsonResp [(''reply'', JStr ''Please say something.'')] 400
   \<and> groq_client env0 = None
   \<and> chat env0 init_state \<lparr>message = Some ''What is pneumonia?''\<rparr> =
       JsonResp [(''reply'', JStr ''AI assistant is temporarily unavailable. Please try again later.'')] 200"
proof -
  have w: "strip (get_or (message \<lparr>message = Some ''  ''\<rparr>) []) = []"
    "strip (get_or (message \<lparr>message = Some [CHR 0xE2, CHR 0x80, CHR 0x83, CHR 0xC2, CHR 0xA0]\<rparr>) []) = []"
    "strip (get_or (message \<lparr>message = None\<rparr>) []) = []"
    "strip [CHR 0xE2, CHR 0x80, CHR 0x83, CHR 0xC2, CHR 0xA0] = []"
    by (simp_all add: get_or_def strip_eval)
  have n: "groq_client env0 = None" by (simp add: env0_def)
  show ?thesis
    using chat_empty_or_disabled
      [where e = "env0\<lparr>groq_client := Some (\<lambda>prompt msg. Inr ''Rest well.'')\<rparr>"
         and client = "\<lambda>prompt msg. Inr ''Rest well.''" and req = "\<lparr>message = Some ''  ''\<rparr>"
         and st = init_state]
      chat_empty_or_disabled
      [where e = "env0\<lparr>groq_client := Some (\<lambda>prompt msg. Inr ''Rest well.'')\<rparr>"
         and client = "\<lambda>prompt msg. Inr ''Rest well.''"
         and req = "\<lparr>message = Some [CHR 0xE2, CHR 0x80, CHR 0x83, CHR 0xC2, CHR 0xA0]\<rparr>"
         and st = init_state]
      chat_empty_or_disabled
      [where e = "env0\<lparr>groq_client := Some (\<lambda>prompt msg. Inr ''Rest well.'')\<rparr>"
         and client = "\<lambda>prompt msg. Inr ''Rest well.''" and req = "\<lparr>message = None\<rparr>"
         and st = init_state]
      chat_empty_or_disabled
      [where e = env0 and req = "\<lparr>message = Some ''What is pneumonia?''\<rparr>" and st = init_state]
      w n
    by simp
qed

text \<open>
  The claim as it was stated fails: with the assistant not configured, the empty message
  is answered with status 200, not 400.
\<close>

theorem chat_empty_or_disabled_counterexample:
  "groq_client env0 = None
   \<and> strip (get_or (message \<lparr>message = Some []\<rparr>) []) = []
   \<and> chat env0 init_state \<lparr>message = Some []\<rparr> =
       JsonResp [(''reply'', JStr ''AI assistant is temporarily unavailable. Please try again later.'')] 200
   \<and> status_code (chat env0 init_state \<lparr>message = Some []\<rparr>) \<noteq> 400"
  by (simp add: chat_def env0_def unavailable_def get_or_def strip_eval status_code_def)

subsection \<open>\<open>/download-report\<close>\<close>

lemma report_image_path_cases:
  "report_image_path e st fn =
     (if fn \<noteq> [] \<and> os_path_exists st (os_path_join (UPLOAD_FOLDER e) fn)
      then Some (os_path_join (UPLOAD_FOLDER e) fn) else None)"
  by (auto simp: report_image_path_def Let_def os_path_join_def)

lemma xray_section_cases:
  "xray_section e st (report_image_path e st fn) =
     (if fn \<noteq> [] \<and> os_path_exists st (os_path_join (UPLOAD_FOLDER e) fn)
      then [Paragraph ''Uploaded X-ray'' section_style,
            embed_image e (os_path_join (UPLOAD_FOLDER e) fn), Spacer 6]
      else [])"
  by (auto simp: report_image_path_cases xray_section_def os_path_join_def)

text \<open>Where the report is generated: no image is named, or the named file is not there.\<close>

lemma download_report_without_image:
  assumes "savefig e [(''Normal'', get_or (d_normal_prob data) 0),
                      (''Pneumonia'', get_or (d_pneumonia_prob data) 0)] = Inr buf"
    and "get_or (d_image_filename data) [] = []
       \<or> \<not> os_path_exists st (os_path_join (UPLOAD_FOLDER e) (get_or (d_image_filename data) []))"
  shows "is_pdf_attachment (snd (download_report e st data)) ''PneumoScan_Report.pdf''
     \<and> Paragraph ''Uploaded X-ray'' section_style
          \<notin> set (pdf_elements (snd (download_report e st data)))"
  using assms
  by (auto simp: download_report_def generate_report_def build_chart_def doc_build_def
      report_elements_def xray_section_cases draw_def send_file_def is_pdf_attachment_def
      pdf_elements_def Let_def)

text \<open>Where the report is generated with the image: the named file is there and decodes.\<close>

lemma download_report_with_image:
  assumes "savefig e [(''Normal'', get_or (d_normal_prob data) 0),
                      (''Pneumonia'', get_or (d_pneumonia_prob data) 0)] = Inr buf"
    and "get_or (d_image_filename data) [] \<noteq> []"
    and "fs st (os_path_join (UPLOAD_FOLDER e) (get_or (d_image_filename data) [])) = Some c"
    and "rlimage_init e (os_path_join (UPLOAD_FOLDER e) (get_or (d_image_filename data) [])) = Inr u"
    and "rlimage_load e c = Inr v"
  shows "is_pdf_attachment (snd (download_report e st data)) ''PneumoScan_Report.pdf''
     \<and> RLImage (os_path_join (UPLOAD_FOLDER e) (get_or (d_image_filename data) []))
          \<in> set (pdf_elements (snd (download_report e st data)))"
  using assms
  by (simp add: download_report_def generate_report_def build_chart_def doc_build_def
      report_elements_def xray_section_cases embed_image_def draw_def send_file_def
      is_pdf_attachment_def pdf_elements_def os_path_exists_def Let_def)

text \<open>
  Where no report is generated: the named file is there, the constructor accepts it, and
  it does not decode. The exception leaves \<open>doc.build\<close> and the handler.
\<close>

lemma download_report_undecodable:
  assumes "savefig e [(''Normal'', get_or (d_normal_prob data) 0),
                      (''Pneumonia'', get_or (d_pneumonia_prob data) 0)] = Inr buf"
    and "get_or (d_image_filename data) [] \<noteq> []"
    and "fs st (os_path_join (UPLOAD_FOLDER e) (get_or (d_image_filename data) [])) = Some c"
    and "rlimage_init e (os_path_join (UPLOAD_FOLDER e) (get_or (d_image_filename data) [])) = Inr u"
    and "rlimage_load e c = Inl ex"
  shows "download_report e st data = (st, ServerError ex)"
  using assms
  by (simp add: download_report_def generate_report_def build_chart_def doc_build_def
      report_elements_def xray_section_cases embed_image_def draw_def os_path_exists_def Let_def)

lemma predict_corrupt_state:
  "fst (predict env0 init_state req_corrupt) =
     init_state\<lparr>fs := [''static/uploads/0123456789abcdef0123456789abcdef.jpg'' \<mapsto> Upload []]\<rparr>"
proof -
  have a: "allowed_file ''scan.jpg''"
    using allowed_file_ext [of "''jpg''" "''scan''"]
    by (simp add: lower_def lower_char_def ALLOWED_EXTENSIONS_def)
  have r: "rsplit1 CHR ''.'' ''scan.jpg'' = [''scan'', ''jpg'']"
    using rsplit1_last [of "CHR ''.''" "''jpg''" "''scan''"] by simp
  show ?thesis
    using a r
    by (simp add: predict_def req_corrupt_def save_upload_def inference_def preprocess_image_def
        env0_def init_state_def os_path_join_def lower_def lower_char_def Let_def)
qed

text \<open>An upload that decodes is stored by \<open>/predict\<close>, and its report embeds it.\<close>

lemma predict_png_state:
  "fs (fst (predict env0 init_state req_png))
      ''static/uploads/0123456789abcdef0123456789abcdef.png'' = Some (Upload [137, 80])"
proof -
  have r: "rsplit1 CHR ''.'' ''chest.PNG'' = [''chest'', ''PNG'']"
    using rsplit1_last [of "CHR ''.''" "''PNG''" "''chest''"] by simp
  show ?thesis
    using chest_png_allowed r
    by (simp add: predict_def req_png_def save_upload_def inference_def preprocess_image_def
        stage1_def stage2_def run_xray_model_def run_pneumonia_model_def XRAY_THRESHOLD_def
        env0_def init_state_def os_path_join_def lower_def lower_char_def Let_def)
qed

lemma download_report_png:
  "is_pdf_attachment
     (snd (download_report env0 (fst (predict env0 init_state req_png)) data_png))
     ''PneumoScan_Report.pdf''
   \<and> RLImage ''static/uploads/0123456789abcdef0123456789abcdef.png''
        \<in> set (pdf_elements
                 (snd (download_report env0 (fst (predict env0 init_state req_png)) data_png)))"
proof -
  have f: "get_or (d_image_filename data_png) [] = ''0123456789abcdef0123456789abcdef.png''"
    by (simp add: data_png_def data_corrupt_def get_or_def)
  have p: "os_path_join (UPLOAD_FOLDER env0) ''0123456789abcdef0123456789abcdef.png'' =
      ''static/uploads/0123456789abcdef0123456789abcdef.png''"
    by (simp add: env0_def os_path_join_def)
  show ?thesis
    using download_report_with_image
      [where e = env0 and data = data_png and st = "fst (predict env0 init_state req_png)"
         and buf = "[137, 80]" and c = "Upload [137, 80]" and u = "()" and v = "()"]
      predict_png_state
    by (simp add: f p) (simp add: env0_def)
qed

text \<open>
  Claim C8 does not hold of the code. \<open>/predict\<close> stores the upload of \<open>req_corrupt\<close>, a
  file that does not decode, before it answers that it could not process it. A
  \<open>/download-report\<close> whose \<open>image_filename\<close> names that file finds it on disk; the
  image constructor, being lazy, accepts it, so the \<open>except\<close> branch that would put a
  note in place of the image is not taken; \<open>doc.build\<close> raises, the handler catches
  nothing, and the answer is a server error with status 500. No report is written.
\<close>

theorem download_report_undecodable_image:
  "get_or (d_image_filename data_corrupt) [] = ''0123456789abcdef0123456789abcdef.jpg''
   \<and> os_path_exists (fst (predict env0 init_state req_corrupt))
        (os_path_join (UPLOAD_FOLDER env0) ''0123456789abcdef0123456789abcdef.jpg'')
   \<and> download_report env0 (fst (predict env0 init_state req_corrupt)) data_corrupt =
       (fst (predict env0 init_state req_corrupt), ServerError ''cannot identify image file'')
   \<and> status_code (snd (download_report env0 (fst (predict env0 init_state req_corrupt)) data_corrupt)) = 500
   \<and> \<not> is_pdf_attachment
          (snd (download_report env0 (fst (predict env0 init_state req_corrupt)) data_corrupt))
          ''PneumoScan_Report.pdf''"
proof -
  have f: "get_or (d_image_filename data_corrupt) [] = ''0123456789abcdef0123456789abcdef.jpg''"
    by (simp add: data_corrupt_def get_or_def)
  have p: "os_path_join (UPLOAD_FOLDER env0) ''0123456789abcdef0123456789abcdef.jpg'' =
      ''static/uploads/0123456789abcdef0123456789abcdef.jpg''"
    by (simp add: env0_def os_path_join_def)
  have x: "fs (fst (predict env0 init_state req_corrupt))
      ''static/uploads/0123456789abcdef0123456789abcdef.jpg'' = Some (Upload [])"
    by (simp add: predict_corrupt_state)
  have d: "download_report env0 (fst (predict env0 init_state req_corrupt)) data_corrupt =
      (fst (predict env0 init_state req_corrupt), ServerError ''cannot identify image file'')"
    by (rule download_report_undecodable [where buf = "[137, 80]" and c = "Upload []" and u = "()"])
      (simp_all add: f p x, simp_all add: env0_def)
  show ?thesis
    using x by (simp add: f p d os_path_exists_def status_code_def is_pdf_attachment_def)
qed

subsection \<open>The two handlers\<close>

text \<open>
  Claim C10, as amended. For a single-output probability \<open>p\<close> other than 0.5, the label
  and the confidence of the handler of \<open>src/utils/app.py\<close> are those of stage 2 of the
  handler of \<open>src/app.py\<close>; the confidences agree for every \<open>p\<close>.
\<close>

theorem utils_agrees_off_boundary:
  "(p \<noteq> 0.5 \<longrightarrow> utils_result [p] = Some (stage2_label p, stage2_confidence p))
   \<and> map_option snd (utils_result [p]) = Some (stage2_confidence p)"
  by (simp add: utils_result_def utils_probs_def utils_label_def utils_confidence_def
      stage2_label_def stage2_confidence_max)

theorem utils_agrees_off_boundary_witness:
  "(0.12::real) \<noteq> 0.5
   \<and> utils_result [0.12] = Some (''NORMAL'', 88)
   \<and> (stage2_label 0.12, stage2_confidence 0.12) = (''NORMAL'', 88)"
proof -
  have r: "round2 (max 0.12 (1 - 0.12) * 100) = 88"
    by (simp add: round2_def round_half_even_def Let_def)
  have l: "stage2_label 0.12 = ''NORMAL''" by (simp add: stage2_label_def)
  show ?thesis
    using utils_agrees_off_boundary [of "0.12"] r l by (simp add: stage2_confidence_max)
qed

text \<open>
  The claim as it was stated fails at the boundary: for \<open>p = 0.5\<close> the handler of
  \<open>src/utils/app.py\<close> answers PNEUMONIA and the handler of \<open>src/app.py\<close> NORMAL, both with
  confidence 50.
\<close>

theorem utils_agrees_off_boundary_counterexample:
  "utils_result [0.5] = Some (''PNEUMONIA'', 50)
   \<and> (stage2_label 0.5, stage2_confidence 0.5) = (''NORMAL'', 50)"
  by (simp add: utils_result_def utils_probs_def utils_label_def utils_confidence_def
      stage2_label_def stage2_confidence_def round2_def round_half_even_def Let_def)

end
